theory Spec2Isabelle
  imports Complex_Main "HOL-Library.Multiset"
begin

section \<open>Floating-point values, errors and arrays\<close>

text \<open>
  A Python or numpy float is either a finite number, one of the two infinities or NaN.
  A finite float stands for the real number it denotes; comparisons are exact on these
  values and follow IEEE 754 on the special ones (every ordered comparison with NaN is
  false). Rounding of arithmetic results is not modelled: the few arithmetic operations
  below are the exact ones on finite values.
\<close>

datatype pyfloat = Fin real | PosInf | NegInf | NaN

fun np_isnan :: "pyfloat \<Rightarrow> bool" where
  "np_isnan NaN = True"
| "np_isnan _ = False"

fun np_isinf :: "pyfloat \<Rightarrow> bool" where
  "np_isinf PosInf = True"
| "np_isinf NegInf = True"
| "np_isinf _ = False"

text \<open>\<open>a < b\<close> on floats.\<close>

fun fl_lt :: "pyfloat \<Rightarrow> pyfloat \<Rightarrow> bool" where
  "fl_lt NaN _ = False"
| "fl_lt _ NaN = False"
| "fl_lt (Fin a) (Fin b) = (a < b)"
| "fl_lt (Fin a) PosInf = True"
| "fl_lt (Fin a) NegInf = False"
| "fl_lt PosInf _ = False"
| "fl_lt NegInf NegInf = False"
| "fl_lt NegInf _ = True"

text \<open>\<open>a <= b\<close> on floats.\<close>

fun fl_le :: "pyfloat \<Rightarrow> pyfloat \<Rightarrow> bool" where
  "fl_le NaN _ = False"
| "fl_le _ NaN = False"
| "fl_le (Fin a) (Fin b) = (a \<le> b)"
| "fl_le (Fin a) PosInf = True"
| "fl_le (Fin a) NegInf = False"
| "fl_le PosInf PosInf = True"
| "fl_le PosInf _ = False"
| "fl_le NegInf _ = True"

definition fl_gt :: "pyfloat \<Rightarrow> pyfloat \<Rightarrow> bool" where
  "fl_gt a b = fl_lt b a"

definition fl_ge :: "pyfloat \<Rightarrow> pyfloat \<Rightarrow> bool" where
  "fl_ge a b = fl_le b a"

fun fl_abs :: "pyfloat \<Rightarrow> pyfloat" where
  "fl_abs (Fin a) = Fin \<bar>a\<bar>"
| "fl_abs PosInf = PosInf"
| "fl_abs NegInf = PosInf"
| "fl_abs NaN = NaN"

fun fl_neg :: "pyfloat \<Rightarrow> pyfloat" where
  "fl_neg (Fin a) = Fin (- a)"
| "fl_neg PosInf = NegInf"
| "fl_neg NegInf = PosInf"
| "fl_neg NaN = NaN"

fun fl_add :: "pyfloat \<Rightarrow> pyfloat \<Rightarrow> pyfloat" where
  "fl_add NaN _ = NaN"
| "fl_add _ NaN = NaN"
| "fl_add (Fin a) (Fin b) = Fin (a + b)"
| "fl_add (Fin a) PosInf = PosInf"
| "fl_add (Fin a) NegInf = NegInf"
| "fl_add PosInf NegInf = NaN"
| "fl_add PosInf _ = PosInf"
| "fl_add NegInf PosInf = NaN"
| "fl_add NegInf _ = NegInf"

definition fl_sub :: "pyfloat \<Rightarrow> pyfloat \<Rightarrow> pyfloat" where
  "fl_sub a b = fl_add a (fl_neg b)"

text \<open>Division of a float by a positive finite constant (the only divisions of the code).\<close>

fun fl_div_pos :: "pyfloat \<Rightarrow> real \<Rightarrow> pyfloat" where
  "fl_div_pos (Fin a) c = Fin (a / c)"
| "fl_div_pos x c = x"

text \<open>
  Python's built-in \<open>max(a, b)\<close> and \<open>min(a, b)\<close>: the first argument is kept unless
  the second one is strictly greater (smaller), so a NaN in second place is dropped.
\<close>

definition py_max :: "pyfloat \<Rightarrow> pyfloat \<Rightarrow> pyfloat" where
  "py_max a b = (if fl_gt b a then b else a)"

definition py_min :: "pyfloat \<Rightarrow> pyfloat \<Rightarrow> pyfloat" where
  "py_min a b = (if fl_lt b a then b else a)"

text \<open>The exceptions the code raises or lets through, each with its message.\<close>

datatype pyerror =
    ValueError string
  | KeyError string
  | IndexError string
  | TypeError string
  | AttributeError string

text \<open>\<open>str(e)\<close>: the message; a \<open>KeyError\<close> shows its key in quotes.\<close>

fun str_error :: "pyerror \<Rightarrow> string" where
  "str_error (ValueError m) = m"
| "str_error (KeyError k) = [CHR 39] @ k @ [CHR 39]"
| "str_error (IndexError m) = m"
| "str_error (TypeError m) = m"
| "str_error (AttributeError m) = m"

text \<open>Decimal rendering of a natural number, as an f-string prints it.\<close>

definition digit_char :: "nat \<Rightarrow> char" where
  "digit_char d = char_of (48 + d)"

fun str_nat :: "nat \<Rightarrow> string" where
  "str_nat n = (if n < 10 then [digit_char n] else str_nat (n div 10) @ [digit_char (n mod 10)])"

text \<open>
  A numpy array of floats, the way numpy holds it: the shape and the entries in row-major
  order. A vector of 24 readings has shape \<open>[24]\<close>, a batch of \<open>k\<close> vectors \<open>[k, 24]\<close>.
\<close>

record ndarray =
  shape :: "nat list"
  data :: "pyfloat list"

definition wf_ndarray :: "ndarray \<Rightarrow> bool" where
  "wf_ndarray a = (length (data a) = prod_list (shape a))"

text \<open>\<open>np.array(xs)\<close> of a flat list of numbers.\<close>

definition np_vector :: "pyfloat list \<Rightarrow> ndarray" where
  "np_vector xs = \<lparr>shape = [length xs], data = xs\<rparr>"

text \<open>\<open>a.reshape(1, -1)\<close>: one row holding all entries; the models read that row.\<close>

definition reshape_row :: "ndarray \<Rightarrow> pyfloat list" where
  "reshape_row a = data a"

section \<open>Input validation (\<open>ModelManager.validate_input_data\<close>)\<close>

text \<open>
  \<open>data.shape[-1]\<close> is the size of the last axis; on a zero-dimensional array the shape
  is the empty tuple and the index raises. Then any NaN or infinity anywhere in the array
  is refused.
\<close>

definition validate_input_data :: "ndarray \<Rightarrow> pyerror + bool" where
  "validate_input_data d =
     (if shape d = [] then Inl (IndexError ''tuple index out of range'')
      else if last (shape d) \<noteq> 24
        then Inl (ValueError (''Expected 24 features, got '' @ str_nat (last (shape d))))
      else if list_ex np_isnan (data d) \<or> list_ex np_isinf (data d)
        then Inl (ValueError ''Input data contains NaN or infinite values'')
      else Inr True)"

section \<open>The model registry (\<open>ModelManager\<close>)\<close>

text \<open>
  The fitted scalers and models are objects of scikit-learn, XGBoost and LightGBM. Each is
  taken as the function its method computes on the single row it is given, or the
  exception that method raises. The registry's two dictionaries \<open>models\<close> and \<open>scalers\<close>
  only ever hold the keys below, each written by one loader, so every key is a field and
  an absent key is \<open>None\<close>.
\<close>

type_synonym scaler = "pyfloat list \<Rightarrow> pyerror + pyfloat list"

type_synonym regressor = "pyfloat list \<Rightarrow> pyerror + pyfloat"

record classifier =
  predict :: "pyfloat list \<Rightarrow> pyerror + int"
  predict_proba :: "pyfloat list \<Rightarrow> pyerror + pyfloat list"

record detector =
  det_predict :: "pyfloat list \<Rightarrow> pyerror + int"
  decision_function :: "pyfloat list \<Rightarrow> pyerror + pyfloat"

record model_manager =
  rul_predictor :: "regressor option"
  failure_classifier :: "classifier option"
  anomaly_detector :: "detector option"
  rul_scaler :: "scaler option"
  failure_scaler :: "scaler option"
  anomaly_scaler :: "scaler option"

text \<open>\<open>xs[i]\<close> on a Python list: a negative index counts from the end.\<close>

definition py_index :: "'a list \<Rightarrow> int \<Rightarrow> pyerror + 'a" where
  "py_index xs i =
     (if 0 \<le> i \<and> i < int (length xs) then Inr (xs ! nat i)
      else if i < 0 \<and> - int (length xs) \<le> i then Inr (xs ! nat (int (length xs) + i))
      else Inl (IndexError ''list index out of range''))"

text \<open>Python's \<open>max\<close> over a sequence: the running maximum changes on a strictly greater item.\<close>

definition py_max_seq :: "pyfloat list \<Rightarrow> pyerror + pyfloat" where
  "py_max_seq xs =
     (case xs of
        [] \<Rightarrow> Inl (ValueError ''max() arg is an empty sequence'')
      | x # rest \<Rightarrow> Inr (foldl py_max x rest))"

subsection \<open>\<open>predict_rul\<close>\<close>

record rul_metadata =
  rul_model_type :: string
  prediction_confidence :: pyfloat
  risk_level :: string
  rul_timestamp :: string

text \<open>
  \<open>now\<close> is the reading of \<open>datetime.utcnow().isoformat()\<close> at the call. An exception of
  the body is logged and raised again, so it is the result.
\<close>

definition predict_rul ::
  "model_manager \<Rightarrow> string \<Rightarrow> ndarray \<Rightarrow> pyerror + (pyfloat \<times> rul_metadata)" where
  "predict_rul mm now sensor_data =
     (case rul_predictor mm of
        None \<Rightarrow> Inl (ValueError ''RUL model not available'')
      | Some model \<Rightarrow>
     (case rul_scaler mm of
        None \<Rightarrow> Inl (KeyError ''rul_scaler'')
      | Some sc \<Rightarrow>
     (case sc (reshape_row sensor_data) of
        Inl e \<Rightarrow> Inl e
      | Inr scaled_data \<Rightarrow>
     (case model scaled_data of
        Inl e \<Rightarrow> Inl e
      | Inr rul_prediction \<Rightarrow>
          Inr (rul_prediction,
            \<lparr>rul_model_type = ''XGBoost'',
             prediction_confidence =
               py_min (Fin 0.95)
                 (py_max (Fin 0.6)
                    (fl_sub (Fin 1.0)
                       (fl_div_pos (fl_abs (fl_sub rul_prediction (Fin 100))) 200))),
             risk_level =
               (if fl_lt rul_prediction (Fin 30) then ''High''
                else if fl_lt rul_prediction (Fin 100) then ''Medium''
                else ''Low''),
             rul_timestamp = now\<rparr>)))))"

subsection \<open>\<open>predict_failure_risk\<close>\<close>

definition classes :: "string list" where
  "classes = [''Low Risk'', ''Medium Risk'', ''High Risk'']"

record failure_metadata =
  failure_model_type :: string
  probabilities :: "(string \<times> pyfloat) list"
  confidence :: pyfloat
  failure_timestamp :: string

text \<open>
  The dictionary \<open>probabilities\<close> is held in insertion order, one entry per probability;
  \<open>classes[i]\<close> raises once there are more probabilities than class names.
\<close>

definition predict_failure_risk ::
  "model_manager \<Rightarrow> string \<Rightarrow> ndarray \<Rightarrow> pyerror + (string \<times> failure_metadata)" where
  "predict_failure_risk mm now sensor_data =
     (case failure_classifier mm of
        None \<Rightarrow> Inl (ValueError ''Failure classification model not available'')
      | Some model \<Rightarrow>
     (case failure_scaler mm of
        None \<Rightarrow> Inl (KeyError ''failure_scaler'')
      | Some sc \<Rightarrow>
     (case sc (reshape_row sensor_data) of
        Inl e \<Rightarrow> Inl e
      | Inr scaled_data \<Rightarrow>
     (case predict model scaled_data of
        Inl e \<Rightarrow> Inl e
      | Inr risk_prediction \<Rightarrow>
     (case predict_proba model scaled_data of
        Inl e \<Rightarrow> Inl e
      | Inr risk_probabilities \<Rightarrow>
     (case py_index classes risk_prediction of
        Inl e \<Rightarrow> Inl e
      | Inr risk_class \<Rightarrow>
     (if length classes < length risk_probabilities
        then Inl (IndexError ''list index out of range'')
      else
     (case py_max_seq risk_probabilities of
        Inl e \<Rightarrow> Inl e
      | Inr m \<Rightarrow>
          Inr (risk_class,
            \<lparr>failure_model_type = ''LightGBM'',
             probabilities = zip classes risk_probabilities,
             confidence = m,
             failure_timestamp = now\<rparr>)))))))))"

subsection \<open>\<open>detect_anomaly\<close>\<close>

record anomaly_metadata =
  anomaly_model_type :: string
  anomaly_score :: pyfloat
  threshold :: pyfloat
  anomaly_confidence :: pyfloat
  anomaly_timestamp :: string

definition detect_anomaly ::
  "model_manager \<Rightarrow> string \<Rightarrow> ndarray \<Rightarrow> pyerror + (bool \<times> anomaly_metadata)" where
  "detect_anomaly mm now sensor_data =
     (case anomaly_detector mm of
        None \<Rightarrow> Inl (ValueError ''Anomaly detection model not available'')
      | Some model \<Rightarrow>
     (case anomaly_scaler mm of
        None \<Rightarrow> Inl (KeyError ''anomaly_scaler'')
      | Some sc \<Rightarrow>
     (case sc (reshape_row sensor_data) of
        Inl e \<Rightarrow> Inl e
      | Inr scaled_data \<Rightarrow>
     (case det_predict model scaled_data of
        Inl e \<Rightarrow> Inl e
      | Inr anomaly_prediction \<Rightarrow>
     (case decision_function model scaled_data of
        Inl e \<Rightarrow> Inl e
      | Inr score \<Rightarrow>
          Inr (anomaly_prediction = - 1,
            \<lparr>anomaly_model_type = ''Isolation Forest'',
             anomaly_score = score,
             threshold = Fin 0.0,
             anomaly_confidence = fl_abs score,
             anomaly_timestamp = now\<rparr>))))))"

section \<open>The attribution engine (\<open>ModelExplainer\<close>)\<close>

subsection \<open>numpy operations used on the explainers' output\<close>

text \<open>\<open>a[0]\<close>: the first entry along the first axis.\<close>

definition nd_first :: "ndarray \<Rightarrow> pyerror + ndarray" where
  "nd_first a =
     (case shape a of
        [] \<Rightarrow> Inl (IndexError ''too many indices for array'')
      | n # rest \<Rightarrow>
          if n = 0 then Inl (IndexError ''index 0 is out of bounds for axis 0 with size 0'')
          else Inr \<lparr>shape = rest, data = take (prod_list rest) (data a)\<rparr>)"

text \<open>\<open>a[:, 1]\<close>: along the second axis, the entry of index 1 of every row.\<close>

definition nd_column1 :: "ndarray \<Rightarrow> pyerror + ndarray" where
  "nd_column1 a =
     (case shape a of
        n # c # rest \<Rightarrow>
          if c \<le> 1 then Inl (IndexError ''index 1 is out of bounds for axis 1'')
          else Inr \<lparr>shape = n # rest,
                    data = concat (map (\<lambda>i. take (prod_list rest)
                                              (drop ((i * c + 1) * prod_list rest) (data a)))
                                       [0..<n])\<rparr>
      | _ \<Rightarrow> Inl (IndexError ''too many indices for array''))"

text \<open>Iterating over an array yields its entries along the first axis.\<close>

definition nd_rows :: "ndarray \<Rightarrow> pyerror + ndarray list" where
  "nd_rows a =
     (case shape a of
        [] \<Rightarrow> Inl (TypeError ''iteration over a 0-d array'')
      | n # rest \<Rightarrow>
          Inr (map (\<lambda>i. \<lparr>shape = rest,
                          data = take (prod_list rest) (drop (i * prod_list rest) (data a))\<rparr>)
                   [0..<n]))"

text \<open>\<open>float(a)\<close>: the single entry of an array of size one; larger arrays are refused.\<close>

definition py_float :: "ndarray \<Rightarrow> pyerror + pyfloat" where
  "py_float a =
     (case data a of
        [x] \<Rightarrow> Inr x
      | _ \<Rightarrow> Inl (TypeError ''only length-1 arrays can be converted to Python scalars''))"

definition nd_scalar :: "pyfloat \<Rightarrow> ndarray" where
  "nd_scalar x = \<lparr>shape = [], data = [x]\<rparr>"

text \<open>\<open>xs[:k]\<close> on a list; a negative \<open>k\<close> drops that many items from the end.\<close>

definition py_take :: "int \<Rightarrow> 'a list \<Rightarrow> 'a list" where
  "py_take k xs = (if 0 \<le> k then take (nat k) xs else take (length xs - nat (- k)) xs)"

text \<open>A loop body that may raise, run over a list: the first exception ends the loop.\<close>

fun map_err :: "('a \<Rightarrow> pyerror + 'b) \<Rightarrow> 'a list \<Rightarrow> pyerror + 'b list" where
  "map_err f [] = Inr []"
| "map_err f (x # xs) =
     (case f x of
        Inl e \<Rightarrow> Inl e
      | Inr y \<Rightarrow> (case map_err f xs of Inl e \<Rightarrow> Inl e | Inr ys \<Rightarrow> Inr (y # ys)))"

text \<open>
  \<open>xs.sort(key=..., reverse=True)\<close>: descending by key, items with equal keys staying in
  their original order. Each item is placed in front of the first item whose key is not
  greater than its own. (Python leaves the order open when a key is NaN.)
\<close>

fun insort_desc :: "('a \<Rightarrow> pyfloat) \<Rightarrow> 'a \<Rightarrow> 'a list \<Rightarrow> 'a list" where
  "insort_desc key x [] = [x]"
| "insort_desc key x (y # ys) =
     (if fl_lt (key x) (key y) then y # insort_desc key x ys else x # y # ys)"

definition sort_desc :: "('a \<Rightarrow> pyfloat) \<Rightarrow> 'a list \<Rightarrow> 'a list" where
  "sort_desc key xs = foldr (insort_desc key) xs []"

text \<open>\<open>', '.join(xs)\<close>.\<close>

fun join_comma :: "string list \<Rightarrow> string" where
  "join_comma [] = []"
| "join_comma [x] = x"
| "join_comma (x # y # ys) = x @ '', '' @ join_comma (y # ys)"

subsection \<open>State of the explainer\<close>

text \<open>
  What a SHAP explainer returns when called on the scaled row: an \<open>Explanation\<close> with
  \<open>values\<close> and, normally, \<open>base_values\<close>; or, from an older interface, a bare array. For
  one row and a single output \<open>values\<close> has shape \<open>(1, 24)\<close> and \<open>base_values\<close> shape \<open>(1)\<close>;
  for a model with \<open>c\<close> classes they have shapes \<open>(1, 24, c)\<close> and \<open>(1, c)\<close>.
\<close>

datatype shap_output =
    Explanation ndarray "ndarray option"
  | RawValues ndarray

type_synonym shap_explainer = "pyfloat list \<Rightarrow> pyerror + shap_output"

text \<open>
  The LIME explanation object: \<open>as_list()\<close> gives pairs of a feature description and a
  weight, \<open>predict_proba\<close> the prediction at the instance. Since the explainer is built with
  \<open>discretize_continuous=True\<close>, a description is the feature's name with the bin the
  instance falls in, such as \<open>sensor_2 <= 0.50\<close>, \<open>0.10 < sensor_2 <= 0.70\<close> or
  \<open>sensor_2 > 1.20\<close>.
\<close>

record lime_result =
  as_list :: "(string \<times> pyfloat) list"
  lime_predict_proba :: "pyfloat list"

text \<open>
  \<open>explain_instance(instance, predict_fn, num_features)\<close> samples a neighbourhood of the
  instance with numpy's process-wide random generator: the explainer is built without a
  \<open>random_state\<close> and nothing reseeds the generator before a call. The generator's state is
  therefore an argument and a result of the call.
\<close>

type_synonym rng = nat

type_synonym lime_explainer =
  "rng \<Rightarrow> ndarray \<Rightarrow> (ndarray list \<Rightarrow> pyerror + pyfloat list list) \<Rightarrow> int
     \<Rightarrow> (pyerror + lime_result) \<times> rng"

record model_explainer =
  manager :: model_manager
  shap_explainers :: "string \<Rightarrow> shap_explainer option"
  lime_explainers :: "string \<Rightarrow> lime_explainer option"

text \<open>\<open>_get_feature_names\<close>: the three settings, then the 21 sensors.\<close>

definition get_feature_names :: "string list" where
  "get_feature_names =
     map (\<lambda>i. ''setting_'' @ str_nat i) [1..<4] @ map (\<lambda>i. ''sensor_'' @ str_nat i) [1..<22]"

text \<open>The dictionary \<open>scalers\<close> of the registry, read by key.\<close>

definition scalers :: "model_manager \<Rightarrow> string \<Rightarrow> scaler option" where
  "scalers mm k =
     (if k = ''rul_scaler'' then rul_scaler mm
      else if k = ''failure_scaler'' then failure_scaler mm
      else if k = ''anomaly_scaler'' then anomaly_scaler mm
      else None)"

text \<open>
  What an explanation call returns: the explanation, or the dictionary of the \<open>except\<close>
  branch with the message, the model type and the explanation type.
\<close>

record error_payload =
  error :: string
  err_model_type :: string
  err_explanation_type :: string

datatype 'a payload = Failed error_payload | Explained 'a

subsection \<open>\<open>get_shap_explanation\<close>\<close>

record shap_feature =
  feature :: string
  shap_value :: pyfloat
  abs_importance :: pyfloat
  impact :: string

record shap_explanation =
  model_type :: string
  base_value :: pyfloat
  feature_importance :: "shap_feature list"
  total_features :: nat
  explanation_type :: string
  summary :: string

text \<open>\<open>_generate_shap_summary\<close>.\<close>

definition generate_shap_summary :: "shap_feature list \<Rightarrow> string" where
  "generate_shap_summary top_features =
     (case top_features of
        [] \<Rightarrow> ''No significant features identified.''
      | top_feature # _ \<Rightarrow>
          ''The most influential factor is '' @ feature top_feature @ '', which '' @
          (if impact top_feature = ''positive'' then ''increases'' else ''decreases'') @
          '' the prediction. '' @
          (if length top_features > 1
           then ''Other important factors include '' @
                join_comma (map feature (take 2 (drop 1 top_features))) @ ''.''
           else []))"

text \<open>
  The step "process SHAP values": the first row of the values and the first base value,
  or 0 where the explainer's answer has no base values.
\<close>

definition process_shap_values :: "shap_output \<Rightarrow> pyerror + (ndarray \<times> ndarray)" where
  "process_shap_values sv =
     (case sv of
        Explanation vals bases \<Rightarrow>
          (case nd_first vals of
             Inl e \<Rightarrow> Inl e
           | Inr v0 \<Rightarrow>
               (case bases of
                  None \<Rightarrow> Inr (v0, nd_scalar (Fin 0))
                | Some bs \<Rightarrow>
                    (case nd_first bs of Inl e \<Rightarrow> Inl e | Inr b \<Rightarrow> Inr (v0, b))))
      | RawValues arr \<Rightarrow>
          (case nd_first arr of Inl e \<Rightarrow> Inl e | Inr v0 \<Rightarrow> Inr (v0, nd_scalar (Fin 0))))"

text \<open>One entry of the ranking, built from a feature name and its value.\<close>

definition shap_record :: "string \<times> ndarray \<Rightarrow> pyerror + shap_feature" where
  "shap_record fv =
     (case py_float (snd fv) of
        Inl e \<Rightarrow> Inl e
      | Inr x \<Rightarrow>
          Inr \<lparr>feature = fst fv, shap_value = x, abs_importance = fl_abs x,
               impact = (if fl_gt x (Fin 0) then ''positive'' else ''negative'')\<rparr>)"

text \<open>The body of the \<open>try\<close> block.\<close>

definition shap_explanation_try ::
  "model_explainer \<Rightarrow> string \<Rightarrow> ndarray \<Rightarrow> int \<Rightarrow> pyerror + shap_explanation" where
  "shap_explanation_try ex mtype input_data max_display =
     (case shap_explainers ex mtype of
        None \<Rightarrow> Inl (ValueError (''SHAP explainer not available for '' @ mtype))
      | Some explainer \<Rightarrow>
     (case (case scalers (manager ex) (mtype @ ''_scaler'') of
              Some sc \<Rightarrow> sc (reshape_row input_data)
            | None \<Rightarrow> Inr (reshape_row input_data)) of
        Inl e \<Rightarrow> Inl e
      | Inr scaled_data \<Rightarrow>
     (case explainer scaled_data of
        Inl e \<Rightarrow> Inl e
      | Inr shap_values \<Rightarrow>
     (case process_shap_values shap_values of
        Inl e \<Rightarrow> Inl e
      | Inr (values0, base) \<Rightarrow>
     (case (if length (shape values0) > 1 then nd_column1 values0 else Inr values0) of
        Inl e \<Rightarrow> Inl e
      | Inr vals \<Rightarrow>
     (case nd_rows vals of
        Inl e \<Rightarrow> Inl e
      | Inr rows \<Rightarrow>
     (case map_err shap_record (zip get_feature_names rows) of
        Inl e \<Rightarrow> Inl e
      | Inr unsorted \<Rightarrow>
     (case py_float base of
        Inl e \<Rightarrow> Inl e
      | Inr b \<Rightarrow>
          Inr \<lparr>model_type = mtype,
               base_value = b,
               feature_importance = py_take max_display (sort_desc abs_importance unsorted),
               total_features = length get_feature_names,
               explanation_type = ''SHAP'',
               summary =
                 generate_shap_summary (py_take 5 (sort_desc abs_importance unsorted))\<rparr>))))))))"

text \<open>Any exception of the body becomes the error dictionary.\<close>

definition get_shap_explanation ::
  "model_explainer \<Rightarrow> string \<Rightarrow> ndarray \<Rightarrow> int \<Rightarrow> shap_explanation payload" where
  "get_shap_explanation ex mtype input_data max_display =
     (case shap_explanation_try ex mtype input_data max_display of
        Inl e \<Rightarrow>
          Failed \<lparr>error = str_error e, err_model_type = mtype, err_explanation_type = ''SHAP''\<rparr>
      | Inr r \<Rightarrow> Explained r)"

subsection \<open>\<open>get_lime_explanation\<close>\<close>

record lime_feature =
  lime_feature_text :: string
  importance :: pyfloat
  lime_abs_importance :: pyfloat
  lime_impact :: string

record lime_explanation =
  lime_model_type :: string
  lime_feature_importance :: "lime_feature list"
  local_prediction :: pyfloat
  lime_explanation_type :: string
  lime_summary :: string

text \<open>\<open>_generate_lime_summary\<close>.\<close>

definition generate_lime_summary :: "lime_feature list \<Rightarrow> string" where
  "generate_lime_summary top_features =
     (case top_features of
        [] \<Rightarrow> ''No significant local features identified.''
      | top_feature # _ \<Rightarrow>
          ''For this specific instance, '' @ lime_feature_text top_feature @ '' '' @
          (if lime_impact top_feature = ''positive'' then ''increases'' else ''decreases'') @
          '' the prediction the most.'')"

text \<open>
  \<open>1.0 / (1.0 + np.exp(-pred / 100))\<close>; at the infinities the exponential is 0 or
  infinite, which gives 1 and 0.
\<close>

fun sigmoid100 :: "pyfloat \<Rightarrow> pyfloat" where
  "sigmoid100 (Fin r) = Fin (1 / (1 + exp (- r / 100)))"
| "sigmoid100 PosInf = Fin 1"
| "sigmoid100 NegInf = Fin 0"
| "sigmoid100 NaN = NaN"

text \<open>
  The prediction function handed to LIME: one registry call per sample. The registry
  stamps each answer with the time; the stamp is dropped here.
\<close>

definition predict_fn ::
  "model_manager \<Rightarrow> string \<Rightarrow> string \<Rightarrow> ndarray list \<Rightarrow> pyerror + pyfloat list list" where
  "predict_fn mm now mtype X =
     (if mtype = ''rul''
      then map_err (\<lambda>x. case predict_rul mm now x of
                           Inl e \<Rightarrow> Inl e
                         | Inr (pred, _) \<Rightarrow>
                             Inr [fl_sub (Fin 1) (sigmoid100 pred), sigmoid100 pred]) X
      else map_err (\<lambda>x. case predict_failure_risk mm now x of
                           Inl e \<Rightarrow> Inl e
                         | Inr (_, metadata) \<Rightarrow> Inr (map snd (probabilities metadata))) X)"

definition lime_record :: "string \<times> pyfloat \<Rightarrow> lime_feature" where
  "lime_record fi =
     \<lparr>lime_feature_text = fst fi, importance = snd fi, lime_abs_importance = fl_abs (snd fi),
      lime_impact = (if fl_gt (snd fi) (Fin 0) then ''positive'' else ''negative'')\<rparr>"

text \<open>The body of the \<open>try\<close> block; the generator's state comes back with the result.\<close>

definition lime_explanation_try ::
  "model_explainer \<Rightarrow> rng \<Rightarrow> string \<Rightarrow> ndarray \<Rightarrow> string \<Rightarrow> int
     \<Rightarrow> (pyerror + lime_explanation) \<times> rng" where
  "lime_explanation_try ex g now input_data mtype num_features =
     (case lime_explainers ex ''tabular'' of
        None \<Rightarrow> (Inl (ValueError ''LIME explainer not available''), g)
      | Some explainer \<Rightarrow>
     (case explainer g input_data (predict_fn (manager ex) now mtype) num_features of
        (Inl e, g') \<Rightarrow> (Inl e, g')
      | (Inr explanation, g') \<Rightarrow>
     (case (if length (lime_predict_proba explanation) > 1
            then py_index (lime_predict_proba explanation) 1
            else py_index (lime_predict_proba explanation) 0) of
        Inl e \<Rightarrow> (Inl e, g')
      | Inr lp \<Rightarrow>
          (Inr \<lparr>lime_model_type = mtype,
                lime_feature_importance =
                  sort_desc lime_abs_importance (map lime_record (as_list explanation)),
                local_prediction = lp,
                lime_explanation_type = ''LIME'',
                lime_summary =
                  generate_lime_summary
                    (py_take 3 (sort_desc lime_abs_importance
                                  (map lime_record (as_list explanation))))\<rparr>,
           g'))))"

definition get_lime_explanation ::
  "model_explainer \<Rightarrow> rng \<Rightarrow> string \<Rightarrow> ndarray \<Rightarrow> string \<Rightarrow> int
     \<Rightarrow> lime_explanation payload \<times> rng" where
  "get_lime_explanation ex g now input_data mtype num_features =
     (case lime_explanation_try ex g now input_data mtype num_features of
        (Inl e, g') \<Rightarrow>
          (Failed \<lparr>error = str_error e, err_model_type = mtype, err_explanation_type = ''LIME''\<rparr>,
           g')
      | (Inr r, g') \<Rightarrow> (Explained r, g'))"

subsection \<open>Consensus and the combined analysis\<close>

text \<open>\<open>s.split(' ')\<close>: the pieces between single spaces; never an empty list.\<close>

fun split_from :: "string \<Rightarrow> string \<Rightarrow> string list" where
  "split_from cur [] = [cur]"
| "split_from cur (c # cs) =
     (if c = CHR '' '' then cur # split_from [] cs else split_from (cur @ [c]) cs)"

definition py_split_space :: "string \<Rightarrow> string list" where
  "py_split_space s = split_from [] s"

text \<open>\<open>d.get('feature_importance', [])\<close> on either kind of result.\<close>

definition shap_get_feature_importance :: "shap_explanation payload \<Rightarrow> shap_feature list" where
  "shap_get_feature_importance p =
     (case p of Explained r \<Rightarrow> feature_importance r | Failed _ \<Rightarrow> [])"

definition lime_get_feature_importance :: "lime_explanation payload \<Rightarrow> lime_feature list" where
  "lime_get_feature_importance p =
     (case p of Explained r \<Rightarrow> lime_feature_importance r | Failed _ \<Rightarrow> [])"

text \<open>
  \<open>_find_consensus_features\<close>. The result is \<open>list(set.intersection(...))\<close>, a list in no
  particular order, so it is held as the set. Nothing in the body can raise on results of
  the two explanation calls.
\<close>

definition find_consensus_features ::
  "shap_explanation payload \<Rightarrow> shap_explanation payload \<Rightarrow> lime_explanation payload
     \<Rightarrow> string set" where
  "find_consensus_features shap_rul_exp shap_failure_exp lime_exp =
     set (map feature (py_take 5 (shap_get_feature_importance shap_rul_exp))) \<inter>
     set (map feature (py_take 5 (shap_get_feature_importance shap_failure_exp))) \<inter>
     set (map (\<lambda>f. hd (py_split_space (lime_feature_text f)))
            (py_take 5 (lime_get_feature_importance lime_exp)))"

record combined_analysis =
  shap_rul :: "shap_explanation payload"
  shap_failure :: "shap_explanation payload"
  lime_local :: "lime_explanation payload"
  consensus_features :: "string set"
  analysis_timestamp :: string

text \<open>
  \<open>get_feature_impact_analysis\<close>. The three calls use the default display count 10. They
  never raise, so the outer \<open>except\<close> branch is not reached. \<open>stamp\<close> is the reading of
  \<open>pd.Timestamp.now().isoformat()\<close>.
\<close>

definition get_feature_impact_analysis ::
  "model_explainer \<Rightarrow> rng \<Rightarrow> string \<Rightarrow> string \<Rightarrow> ndarray \<Rightarrow> combined_analysis \<times> rng" where
  "get_feature_impact_analysis ex g now stamp input_data =
     (let shap_rul_exp = get_shap_explanation ex ''rul'' input_data 10;
          shap_failure_exp = get_shap_explanation ex ''failure'' input_data 10;
          lime_call = get_lime_explanation ex g now input_data ''failure'' 10
      in (\<lparr>shap_rul = shap_rul_exp,
           shap_failure = shap_failure_exp,
           lime_local = fst lime_call,
           consensus_features =
             find_consensus_features shap_rul_exp shap_failure_exp (fst lime_call),
           analysis_timestamp = stamp\<rparr>,
          snd lime_call))"

section \<open>The properties as the specification words them\<close>

text \<open>Sum of a list of floats, exact on finite values.\<close>

definition fl_sum :: "pyfloat list \<Rightarrow> pyfloat" where
  "fl_sum xs = foldr fl_add xs (Fin 0)"

fun real_of_float :: "pyfloat \<Rightarrow> real" where
  "real_of_float (Fin r) = r"
| "real_of_float _ = 0"

text \<open>
  Local accuracy, in the specification's words: the contributions returned, summed and
  added to the reported base value, reconstruct the model's output \<open>y\<close> within \<open>tol\<close>.
\<close>

definition reconstructs_output :: "shap_explanation \<Rightarrow> pyfloat \<Rightarrow> real \<Rightarrow> bool" where
  "reconstructs_output r y tol =
     (case (fl_add (fl_sum (map shap_value (feature_importance r))) (base_value r), y) of
        (Fin s, Fin t) \<Rightarrow> \<bar>s - t\<bar> \<le> tol
      | _ \<Rightarrow> False)"

text \<open>
  The feature a LIME description is about, in the specification's sense of a feature
  name: the piece of the description that is one of the 24 feature names.
\<close>

definition described_feature :: "string \<Rightarrow> string option" where
  "described_feature d = find (\<lambda>w. w \<in> set get_feature_names) (py_split_space d)"

text \<open>
  Consensus in the specification's words: the intersection of the three sets of top-5
  feature names, a LIME entry counting for the feature it describes.
\<close>

definition consensus_by_feature_name ::
  "shap_explanation payload \<Rightarrow> shap_explanation payload \<Rightarrow> lime_explanation payload
     \<Rightarrow> string set" where
  "consensus_by_feature_name shap_rul_exp shap_failure_exp lime_exp =
     set (map feature (py_take 5 (shap_get_feature_importance shap_rul_exp))) \<inter>
     set (map feature (py_take 5 (shap_get_feature_importance shap_failure_exp))) \<inter>
     set (List.map_filter (\<lambda>f. described_feature (lime_feature_text f))
            (py_take 5 (lime_get_feature_importance lime_exp)))"

text \<open>
  Consensus restricted to the methods that succeeded, in the specification's words: the
  intersection of the top-5 sets of those results that are not error payloads.
\<close>

definition consensus_over_succeeded ::
  "shap_explanation payload \<Rightarrow> shap_explanation payload \<Rightarrow> lime_explanation payload
     \<Rightarrow> string set" where
  "consensus_over_succeeded shap_rul_exp shap_failure_exp lime_exp =
     (case (case shap_rul_exp of
              Explained r \<Rightarrow> [set (map feature (py_take 5 (feature_importance r)))]
            | Failed _ \<Rightarrow> []) @
           (case shap_failure_exp of
              Explained r \<Rightarrow> [set (map feature (py_take 5 (feature_importance r)))]
            | Failed _ \<Rightarrow> []) @
           (case lime_exp of
              Explained r \<Rightarrow>
                [set (map (\<lambda>f. hd (py_split_space (lime_feature_text f)))
                        (py_take 5 (lime_feature_importance r)))]
            | Failed _ \<Rightarrow> []) of
        [] \<Rightarrow> {}
      | A # rest \<Rightarrow> fold (\<inter>) rest A)"


section \<open>Fixtures for concrete evaluation\<close>

text \<open>
  Small stand-ins for the fitted objects, used where a statement is evaluated at a concrete
  input: a scaler that accepts rows of 24 entries and leaves them unchanged, a classifier
  and a detector with constant answers, and the all-zero reading.
\<close>

definition fixture_scaler :: scaler where
  "fixture_scaler xs =
     (if length xs = 24 then Inr xs
      else Inl (ValueError ''X has a different number of features than StandardScaler is expecting''))"

definition fixture_classifier :: classifier where
  "fixture_classifier =
     \<lparr>predict = (\<lambda>xs. Inr 2), predict_proba = (\<lambda>xs. Inr [Fin 0.2, Fin 0.3, Fin 0.5])\<rparr>"

definition fixture_detector :: detector where
  "fixture_detector =
     \<lparr>det_predict = (\<lambda>xs. Inr (- 1)), decision_function = (\<lambda>xs. Inr (Fin (- 0.25)))\<rparr>"

definition fixture_manager :: model_manager where
  "fixture_manager =
     \<lparr>rul_predictor = Some (\<lambda>xs. Inr (Fin 25)),
      failure_classifier = Some fixture_classifier,
      anomaly_detector = Some fixture_detector,
      rul_scaler = Some fixture_scaler,
      failure_scaler = Some fixture_scaler,
      anomaly_scaler = Some fixture_scaler\<rparr>"

definition zero_vector :: ndarray where
  "zero_vector = np_vector (replicate 24 (Fin 0))"

definition fixture_now :: string where
  "fixture_now = ''2024-01-01T00:00:00''"

text \<open>
  Stand-ins for the explainers. The first SHAP explainer answers as for a model with a
  single output: 24 contributions of 1 and base value 1, which add up to the fixture
  regressor's prediction 25. The second answers as for a three-class model: for every
  feature the contributions 1, 2 and 3 toward Low, Medium and High Risk, and one base
  value per class. The LIME explainer calls the prediction function once on the instance,
  returns three descriptions in LIME's format and moves the random generator on; its first
  weight depends on the generator's state, as sampled neighbourhoods do.
\<close>

definition fixture_single_output_explainer :: shap_explainer where
  "fixture_single_output_explainer row =
     Inr (Explanation \<lparr>shape = [1, 24], data = replicate 24 (Fin 1)\<rparr>
            (Some \<lparr>shape = [1], data = [Fin 1]\<rparr>))"

definition fixture_multiclass_explainer :: shap_explainer where
  "fixture_multiclass_explainer row =
     Inr (Explanation \<lparr>shape = [1, 24, 3], data = concat (replicate 24 [Fin 1, Fin 2, Fin 3])\<rparr>
            (Some \<lparr>shape = [1, 3], data = [Fin 0.5, Fin 0.3, Fin 0.2]\<rparr>))"

definition fixture_lime_explainer :: lime_explainer where
  "fixture_lime_explainer g instance f num_features =
     (case f [instance] of
        Inl e \<Rightarrow> (Inl e, Suc g)
      | Inr ps \<Rightarrow>
          (Inr \<lparr>as_list =
                  [(''sensor_1 <= 0.50'', Fin (0.4 + real g)),
                   (''0.10 < sensor_2 <= 0.70'', Fin 0.3),
                   (''setting_1 > 1.20'', Fin (- 0.2))],
                lime_predict_proba = concat ps\<rparr>,
           Suc g))"

definition fixture_explainer :: model_explainer where
  "fixture_explainer =
     \<lparr>manager = fixture_manager,
      shap_explainers =
        (\<lambda>k. if k = ''rul'' then Some fixture_single_output_explainer
             else if k = ''failure'' then Some fixture_multiclass_explainer
             else None),
      lime_explainers = (\<lambda>k. if k = ''tabular'' then Some fixture_lime_explainer else None)\<rparr>"

definition unit_record :: "string \<Rightarrow> shap_feature" where
  "unit_record name =
     \<lparr>feature = name, shap_value = Fin 1, abs_importance = Fin 1, impact = ''positive''\<rparr>"

definition fixture_rul_explanation :: shap_explanation where
  "fixture_rul_explanation =
     \<lparr>model_type = ''rul'',
      base_value = Fin 1,
      feature_importance =
        map unit_record
          [''setting_1'', ''setting_2'', ''setting_3'', ''sensor_1'', ''sensor_2'',
           ''sensor_3'', ''sensor_4'', ''sensor_5'', ''sensor_6'', ''sensor_7''],
      total_features = 24,
      explanation_type = ''SHAP'',
      summary =
        ''The most influential factor is setting_1, which increases the prediction. Other important factors include setting_2, setting_3.''\<rparr>"

text \<open>What the code returns for the LIME stand-in when the generator is in state \<open>g\<close>.\<close>

definition fixture_lime_explanation :: "rng \<Rightarrow> lime_explanation" where
  "fixture_lime_explanation g =
     \<lparr>lime_model_type = ''failure'',
      lime_feature_importance =
        [\<lparr>lime_feature_text = ''sensor_1 <= 0.50'', importance = Fin (0.4 + real g),
           lime_abs_importance = Fin (0.4 + real g), lime_impact = ''positive''\<rparr>,
         \<lparr>lime_feature_text = ''0.10 < sensor_2 <= 0.70'', importance = Fin 0.3,
           lime_abs_importance = Fin 0.3, lime_impact = ''positive''\<rparr>,
         \<lparr>lime_feature_text = ''setting_1 > 1.20'', importance = Fin (- 0.2),
           lime_abs_importance = Fin 0.2, lime_impact = ''negative''\<rparr>],
      local_prediction = Fin 0.3,
      lime_explanation_type = ''LIME'',
      lime_summary = ''For this specific instance, sensor_1 <= 0.50 increases the prediction the most.''\<rparr>"

text \<open>
  A classifier fitted on two classes only, as LightGBM is when the training labels hold just
  the values 0 and 1: two probabilities, and a label that is 0 or 1.
\<close>

definition fixture_binary_classifier :: classifier where
  "fixture_binary_classifier =
     \<lparr>predict = (\<lambda>xs. Inr 0), predict_proba = (\<lambda>xs. Inr [Fin 0.9, Fin 0.1])\<rparr>"

definition fixture_binary_manager :: model_manager where
  "fixture_binary_manager = fixture_manager\<lparr>failure_classifier := Some fixture_binary_classifier\<rparr>"





section \<open>Properties of the registry\<close>

lemma py_max_Fin: "py_max (Fin a) (Fin b) = Fin (max a b)"
  by (simp add: py_max_def fl_gt_def max_def)

lemma foldl_py_max_Fin: "foldl py_max (Fin x) (map Fin xs) = Fin (Max (set (x # xs)))"
proof (induction xs arbitrary: x)
  case Nil
  then show ?case by simp
next
  case (Cons y ys)
  have "Max (set (max x y # ys)) = Max (set (x # y # ys))"
    by (cases "ys = []") (simp_all add: max.assoc)
  with Cons show ?case by (simp add: py_max_Fin)
qed

lemma zero_vector_row: "reshape_row zero_vector = replicate 24 (Fin 0)"
  by (simp add: zero_vector_def np_vector_def reshape_row_def)

lemma fixture_scaler_zero: "fixture_scaler (replicate 24 (Fin 0)) = Inr (replicate 24 (Fin 0))"
  by (simp add: fixture_scaler_def)

text \<open>
  Claim C6. Validation refuses every one-dimensional input whose length is not 24, and
  every vector of length 24 that holds a NaN or an infinity, with the \<open>ValueError\<close> that the
  service reports as a validation (schema) error; a NaN at index 5 is one such case.
\<close>

theorem validate_rejects_bad_vectors:
  "(shape a = [n] \<and> n \<noteq> 24 \<longrightarrow>
      validate_input_data a = Inl (ValueError (''Expected 24 features, got '' @ str_nat n))) \<and>
   (shape a = [24] \<and> (\<exists>x \<in> set (data a). np_isnan x \<or> np_isinf x) \<longrightarrow>
      validate_input_data a = Inl (ValueError ''Input data contains NaN or infinite values'')) \<and>
   (shape a = [24] \<and> length (data a) = 24 \<and> data a ! 5 = NaN \<longrightarrow>
      validate_input_data a = Inl (ValueError ''Input data contains NaN or infinite values''))"
proof (intro conjI impI)
  assume "shape a = [n] \<and> n \<noteq> 24"
  then show "validate_input_data a = Inl (ValueError (''Expected 24 features, got '' @ str_nat n))"
    by (simp add: validate_input_data_def)
next
  assume "shape a = [24] \<and> (\<exists>x \<in> set (data a). np_isnan x \<or> np_isinf x)"
  then show "validate_input_data a = Inl (ValueError ''Input data contains NaN or infinite values'')"
    by (auto simp add: validate_input_data_def list_ex_iff)
next
  assume h: "shape a = [24] \<and> length (data a) = 24 \<and> data a ! 5 = NaN"
  then have "NaN \<in> set (data a)"
    using nth_mem [of 5 "data a"] by simp
  then have "list_ex np_isnan (data a)"
    unfolding list_ex_iff by (rule bexI [of _ NaN, rotated]) simp
  with h show "validate_input_data a = Inl (ValueError ''Input data contains NaN or infinite values'')"
    by (simp add: validate_input_data_def)
qed

theorem validate_rejects_bad_vectors_witness:
  "validate_input_data (np_vector [Fin 1, Fin 2]) =
     Inl (ValueError ''Expected 24 features, got 2'') \<and>
   validate_input_data (np_vector ((replicate 24 (Fin 0))[7 := PosInf])) =
     Inl (ValueError ''Input data contains NaN or infinite values'') \<and>
   validate_input_data (np_vector ((replicate 24 (Fin 0))[5 := NaN])) =
     Inl (ValueError ''Input data contains NaN or infinite values'')"
proof -
  have s2: "str_nat 2 = ''2''"
    by code_simp
  have a: "shape (np_vector [Fin 1, Fin 2]) = [2] \<and> (2::nat) \<noteq> 24"
    by (simp add: np_vector_def)
  have b: "shape (np_vector ((replicate 24 (Fin 0))[7 := PosInf])) = [24] \<and>
      (\<exists>x \<in> set (data (np_vector ((replicate 24 (Fin 0))[7 := PosInf]))). np_isnan x \<or> np_isinf x)"
  proof -
    have "list_ex (\<lambda>x. np_isnan x \<or> np_isinf x) ((replicate 24 (Fin 0))[7 := PosInf])"
      by code_simp
    then show ?thesis
      by (simp add: np_vector_def list_ex_iff)
  qed
  have c: "shape (np_vector ((replicate 24 (Fin 0))[5 := NaN])) = [24] \<and>
      length (data (np_vector ((replicate 24 (Fin 0))[5 := NaN]))) = 24 \<and>
      data (np_vector ((replicate 24 (Fin 0))[5 := NaN])) ! 5 = NaN"
    by (simp add: np_vector_def)
  show ?thesis
    using validate_rejects_bad_vectors [of "np_vector [Fin 1, Fin 2]" 2]
      validate_rejects_bad_vectors [of "np_vector ((replicate 24 (Fin 0))[7 := PosInf])" 24]
      validate_rejects_bad_vectors [of "np_vector ((replicate 24 (Fin 0))[5 := NaN])" 24]
      a b c s2
    by simp
qed

text \<open>
  Claim C10. Validation looks only at the size of the last axis and at the entries: any
  array with at least one axis whose last axis has size 24 and whose entries are all
  finite is accepted, for instance a batch of shape \<open>(k, 24)\<close>, which is not a single
  reading.
\<close>

theorem validate_accepts_any_last_axis_24:
  assumes "shape a \<noteq> []" and "last (shape a) = 24"
    and "\<forall>x \<in> set (data a). \<not> np_isnan x \<and> \<not> np_isinf x"
  shows "validate_input_data a = Inr True"
  using assms by (auto simp add: validate_input_data_def list_ex_iff)

theorem validate_accepts_any_last_axis_24_witness:
  "validate_input_data \<lparr>shape = [2, 24], data = replicate 48 (Fin 1)\<rparr> = Inr True"
  using validate_accepts_any_last_axis_24 [of "\<lparr>shape = [2, 24], data = replicate 48 (Fin 1)\<rparr>"]
  by simp

text \<open>
  Claim C3. Whenever \<open>predict_rul\<close> returns, the risk level follows the predicted value by
  the fixed thresholds: below 30 it is High, from 30 up to but not including 100 it is
  Medium, and from 100 on it is Low.
\<close>

theorem predict_rul_risk_level:
  assumes "predict_rul mm now v = Inr (val, meta)"
  shows "(fl_lt val (Fin 30) \<longrightarrow> risk_level meta = ''High'') \<and>
         (fl_le (Fin 30) val \<and> fl_lt val (Fin 100) \<longrightarrow> risk_level meta = ''Medium'') \<and>
         (fl_ge val (Fin 100) \<longrightarrow> risk_level meta = ''Low'')"
proof -
  from assms have r: "risk_level meta =
      (if fl_lt val (Fin 30) then ''High'' else if fl_lt val (Fin 100) then ''Medium'' else ''Low'')"
    by (auto simp: predict_rul_def split: option.splits sum.splits)
  show ?thesis
    unfolding r fl_ge_def by (cases val) simp_all
qed

lemma predict_rul_fixture:
  "predict_rul fixture_manager fixture_now zero_vector =
     Inr (Fin 25,
       \<lparr>rul_model_type = ''XGBoost'', prediction_confidence = Fin 0.625,
        risk_level = ''High'', rul_timestamp = fixture_now\<rparr>)"
  by (simp add: predict_rul_def fixture_manager_def zero_vector_row fixture_scaler_zero
      py_min_def py_max_def fl_gt_def fl_sub_def)

theorem predict_rul_risk_level_witness:
  "predict_rul fixture_manager fixture_now zero_vector =
     Inr (Fin 25,
       \<lparr>rul_model_type = ''XGBoost'', prediction_confidence = Fin 0.625,
        risk_level = ''High'', rul_timestamp = fixture_now\<rparr>) \<and>
   fl_lt (Fin 25) (Fin 30) \<and>
   risk_level \<lparr>rul_model_type = ''XGBoost'', prediction_confidence = Fin 0.625,
        risk_level = ''High'', rul_timestamp = fixture_now\<rparr> = ''High''"
  using predict_rul_risk_level [OF predict_rul_fixture] predict_rul_fixture
  by simp

lemma predict_failure_risk_fixture:
  "predict_failure_risk fixture_manager now zero_vector =
     Inr (''High Risk'',
       \<lparr>failure_model_type = ''LightGBM'',
        probabilities =
          [(''Low Risk'', Fin 0.2), (''Medium Risk'', Fin 0.3), (''High Risk'', Fin 0.5)],
        confidence = Fin 0.5,
        failure_timestamp = now\<rparr>)"
  by (simp add: predict_failure_risk_def fixture_manager_def fixture_classifier_def
        zero_vector_row fixture_scaler_zero py_index_def classes_def py_max_seq_def py_max_Fin)

text \<open>
  What holds for a classifier with any number of classes up to three: if it returns
  between one and three finite probabilities and, as its label, an index at which they are
  largest, the call returns; the mapping has one entry per probability, keyed by the class
  names in order, with those probabilities as values; the confidence is the largest
  probability; and the returned class is the name at the label's index, whose entry in the
  mapping is that largest probability.
\<close>

lemma zip_take_left: "zip xs ys = zip (take (length ys) xs) ys"
  by (induction xs ys rule: list_induct2') auto

lemma predict_failure_risk_mapping:
  assumes "failure_classifier mm = Some clf" and "failure_scaler mm = Some sc"
    and "sc (reshape_row v) = Inr s"
    and "predict_proba clf s = Inr (map Fin ps)" and "ps \<noteq> []" and "length ps \<le> 3"
    and "predict clf s = Inr (int k)" and "k < length ps" and "\<forall>p \<in> set ps. p \<le> ps ! k"
  shows "\<exists>cls meta. predict_failure_risk mm now v = Inr (cls, meta) \<and>
           map fst (probabilities meta) = take (length ps) classes \<and>
           map snd (probabilities meta) = map Fin ps \<and>
           confidence meta = Fin (Max (set ps)) \<and>
           cls = classes ! k \<and>
           map_of (probabilities meta) cls = Some (confidence meta)"
proof -
  from \<open>ps \<noteq> []\<close> obtain a rest where ps: "ps = a # rest"
    by (cases ps) auto
  have mx: "py_max_seq (map Fin ps) = Inr (Fin (Max (set ps)))"
    unfolding ps py_max_seq_def using foldl_py_max_Fin [of a rest] by simp
  have k3: "k < 3"
    using assms(6,8) by simp
  have idx: "py_index classes (int k) = Inr (classes ! k)"
    using k3 by (simp add: py_index_def classes_def)
  have top: "ps ! k = Max (set ps)"
  proof (rule antisym)
    show "ps ! k \<le> Max (set ps)"
      using assms(8) by (intro Max_ge) auto
    show "Max (set ps) \<le> ps ! k"
      using assms(9) \<open>ps \<noteq> []\<close> by (intro Max.boundedI) auto
  qed
  have len: "\<not> length classes < length ps"
    using assms(6) by (simp add: classes_def)
  have res: "predict_failure_risk mm now v = Inr (classes ! k,
      \<lparr>failure_model_type = ''LightGBM'', probabilities = zip classes (map Fin ps),
       confidence = Fin (Max (set ps)), failure_timestamp = now\<rparr>)"
    using assms(1-4,7) mx idx len by (simp add: predict_failure_risk_def)
  have d: "distinct classes"
    by (simp add: classes_def)
  have z: "zip classes (map Fin ps) = zip (take (length ps) classes) (map Fin ps)"
    using zip_take_left [of classes "map Fin ps"] by simp
  have lt: "length (take (length ps) classes) = length (map Fin ps)"
    using assms(6) by (simp add: classes_def)
  have look: "map_of (zip classes (map Fin ps)) (classes ! k) = Some (Fin (ps ! k))"
    using map_of_zip_nth [OF lt, of k] d assms(8) unfolding z by simp
  have keys: "map fst (zip classes (map Fin ps)) = take (length ps) classes"
    unfolding z using lt by (metis map_fst_zip)
  have vals: "map snd (zip classes (map Fin ps)) = map Fin ps"
    unfolding z using lt by (metis map_snd_zip)
  show ?thesis
    using res look top keys vals by simp
qed

text \<open>
  Claim C4. The registry documents three classes (\<open>Low Risk\<close>, \<open>Medium Risk\<close>,
  \<open>High Risk\<close>) for the failure classifier, and the data generator labels a sample High
  risk when its remaining life is below 50. The generated remaining life is
  \<open>300 - 50 d + noise\<close>, where the degradation score \<open>d\<close> has mean at most 2 and a spread of
  about one half and the noise a spread of 20; a remaining life below 50 is out of reach, so
  that label does not occur in the training data and the classifier is fitted on the two
  labels 0 and 1. With such a classifier the mapping returned at the all-zero reading has the two
  keys \<open>Low Risk\<close> and \<open>Medium Risk\<close> and no entry for \<open>High Risk\<close>: it is not a
  distribution over the three classes.
\<close>

theorem predict_failure_risk_binary_mapping:
  "predict_failure_risk fixture_binary_manager fixture_now zero_vector =
     Inr (''Low Risk'',
       \<lparr>failure_model_type = ''LightGBM'',
        probabilities = [(''Low Risk'', Fin 0.9), (''Medium Risk'', Fin 0.1)],
        confidence = Fin 0.9,
        failure_timestamp = fixture_now\<rparr>) \<and>
   map fst [(''Low Risk'', Fin 0.9), (''Medium Risk'', Fin 0.1)] = [''Low Risk'', ''Medium Risk''] \<and>
   map_of [(''Low Risk'', Fin 0.9), (''Medium Risk'', Fin 0.1)] ''High Risk'' = None"
  by (simp add: predict_failure_risk_def fixture_binary_manager_def fixture_manager_def
      fixture_binary_classifier_def zero_vector_row fixture_scaler_zero py_index_def classes_def
      py_max_seq_def py_max_Fin)

text \<open>
  Claim C5. Let the detector label a row \<open>-1\<close> exactly when its decision function is
  negative there (what scikit-learn's isolation forest does). Then, whenever
  \<open>detect_anomaly\<close> returns, the anomaly flag is true if and only if the returned score is
  strictly negative, and the confidence is the absolute value of that score.
\<close>

theorem detect_anomaly_sign:
  assumes "detect_anomaly mm now v = Inr (is_anomaly, meta)"
    and "anomaly_detector mm = Some det"
    and "\<forall>s p x. det_predict det s = Inr p \<and> decision_function det s = Inr x \<longrightarrow>
           (p = - 1) = fl_lt x (Fin 0)"
  shows "is_anomaly = fl_lt (anomaly_score meta) (Fin 0) \<and>
         anomaly_confidence meta = fl_abs (anomaly_score meta)"
  using assms
  by (auto simp: detect_anomaly_def split: option.splits sum.splits)

lemma detect_anomaly_fixture:
  "detect_anomaly fixture_manager fixture_now zero_vector =
     Inr (True,
       \<lparr>anomaly_model_type = ''Isolation Forest'', anomaly_score = Fin (- 0.25),
        threshold = Fin 0, anomaly_confidence = Fin 0.25,
        anomaly_timestamp = fixture_now\<rparr>)"
  by (simp add: detect_anomaly_def fixture_manager_def fixture_detector_def
      zero_vector_row fixture_scaler_zero)

theorem detect_anomaly_sign_witness:
  "detect_anomaly fixture_manager fixture_now zero_vector =
     Inr (True,
       \<lparr>anomaly_model_type = ''Isolation Forest'', anomaly_score = Fin (- 0.25),
        threshold = Fin 0, anomaly_confidence = Fin 0.25,
        anomaly_timestamp = fixture_now\<rparr>) \<and>
   True = fl_lt (Fin (- 0.25)) (Fin 0) \<and>
   Fin 0.25 = fl_abs (Fin (- 0.25))"
proof -
  have d: "anomaly_detector fixture_manager = Some fixture_detector"
    by (simp add: fixture_manager_def)
  have c: "\<forall>s p x. det_predict fixture_detector s = Inr p \<and>
        decision_function fixture_detector s = Inr x \<longrightarrow> (p = - 1) = fl_lt x (Fin 0)"
    by (auto simp: fixture_detector_def)
  show ?thesis
    using detect_anomaly_sign [OF detect_anomaly_fixture d c] detect_anomaly_fixture
    by simp
qed

section \<open>Properties of the attribution engine\<close>

subsection \<open>The fixtures evaluated\<close>

lemma predict_fn_fixture:
  "predict_fn fixture_manager now ''failure'' [zero_vector] = Inr [ [Fin 0.2, Fin 0.3, Fin 0.5] ]"
  by (simp add: predict_fn_def predict_failure_risk_fixture)

lemma get_lime_explanation_fixture:
  "get_lime_explanation fixture_explainer g now zero_vector ''failure'' 10 =
     (Explained (fixture_lime_explanation g), Suc g)"
  by (simp add: get_lime_explanation_def lime_explanation_try_def fixture_explainer_def
      fixture_lime_explainer_def predict_fn_fixture py_index_def sort_desc_def lime_record_def fl_gt_def
      generate_lime_summary_def py_take_def fixture_lime_explanation_def)

lemma get_shap_explanation_fixture_rul:
  "get_shap_explanation fixture_explainer ''rul'' zero_vector 10 = Explained fixture_rul_explanation"
  by code_simp

lemma get_shap_explanation_fixture_failure:
  "get_shap_explanation fixture_explainer ''failure'' zero_vector 10 =
     Failed \<lparr>error = ''only length-1 arrays can be converted to Python scalars'',
             err_model_type = ''failure'', err_explanation_type = ''SHAP''\<rparr>"
  by code_simp

subsection \<open>Sorting, slicing and sums\<close>

lemma mset_insort_desc: "mset (insort_desc key x xs) = add_mset x (mset xs)"
  by (induction xs) auto

lemma mset_sort_desc: "mset (sort_desc key xs) = mset xs"
  unfolding sort_desc_def by (induction xs) (auto simp: mset_insort_desc)

lemma py_take_all: "int (length xs) \<le> k \<Longrightarrow> py_take k xs = xs"
  by (simp add: py_take_def)

lemma fl_sum_Fin: "fl_sum (map Fin rs) = Fin (sum_list rs)"
  unfolding fl_sum_def by (induction rs) auto

lemma map_err_total: "(\<And>x. x \<in> set xs \<Longrightarrow> f x = Inr (g x)) \<Longrightarrow> map_err f xs = Inr (map g xs)"
  by (induction xs) auto

lemma length_get_feature_names: "length get_feature_names = 24"
  by (simp add: get_feature_names_def)

lemma nd_rows_vector:
  "nd_rows \<lparr>shape = [length xs], data = xs\<rparr> = Inr (map (\<lambda>x. \<lparr>shape = [], data = [x]\<rparr>) xs)"
proof -
  have "map (\<lambda>i. \<lparr>shape = [], data = take (Suc 0) (drop i xs)\<rparr>) [0..<length xs]
      = map (\<lambda>x. \<lparr>shape = [], data = [x]\<rparr>) xs"
    by (rule nth_equalityI) (auto simp: take_Suc_conv_app_nth hd_drop_conv_nth take_Suc)
  then show ?thesis by (simp add: nd_rows_def)
qed

lemma fin_list:
  assumes "mset fs = mset (map Fin cs)"
  shows "fs = map Fin (map real_of_float fs) \<and> sum_list (map real_of_float fs) = sum_list cs"
proof -
  have "\<forall>x \<in> set fs. \<exists>r. x = Fin r"
    using assms by (metis (no_types, lifting) imageE mset_eq_setD set_map)
  then have a: "fs = map Fin (map real_of_float fs)"
    by (induction fs) auto
  have "mset (map real_of_float fs) = image_mset real_of_float (mset (map Fin cs))"
    using assms by (metis mset_map)
  also have "\<dots> = mset cs" by (simp add: multiset.map_comp comp_def)
  finally have "sum_list (map real_of_float fs) = sum_list cs"
    by (metis sum_mset_sum_list)
  with a show ?thesis by simp
qed


lemma shap_record_singleton:
  "shap_record (f, \<lparr>shape = [], data = [x]\<rparr>) =
     Inr \<lparr>feature = f, shap_value = x, abs_importance = fl_abs x,
          impact = (if fl_gt x (Fin 0) then ''positive'' else ''negative'')\<rparr>"
  by (simp add: shap_record_def py_float_def)

lemma shap_records_vector:
  assumes "length xs = 24"
  shows "\<exists>recs. map_err shap_record
            (zip get_feature_names (map (\<lambda>x. \<lparr>shape = [], data = [x]\<rparr>) xs)) = Inr recs \<and>
          map shap_value recs = xs"
proof -
  let ?g = "\<lambda>fx. \<lparr>feature = fst fx, shap_value = snd fx, abs_importance = fl_abs (snd fx),
          impact = (if fl_gt (snd fx) (Fin 0) then ''positive'' else ''negative'')\<rparr>"
  let ?rows = "map (\<lambda>x. \<lparr>shape = [], data = [x]\<rparr>) xs"
  have z: "zip get_feature_names ?rows =
      map (\<lambda>fx. (fst fx, \<lparr>shape = [], data = [snd fx]\<rparr>)) (zip get_feature_names xs)"
    by (simp add: zip_map2 case_prod_beta)
  have "map_err shap_record (zip get_feature_names ?rows) =
      Inr (map (\<lambda>p. ?g (fst p, hd (data (snd p)))) (zip get_feature_names ?rows))"
    by (rule map_err_total) (auto simp: z shap_record_singleton)
  moreover have "map shap_value (map (\<lambda>p. ?g (fst p, hd (data (snd p)))) (zip get_feature_names ?rows)) = xs"
    using assms length_get_feature_names
    by (simp add: z comp_def)
  ultimately show ?thesis by blast
qed

subsection \<open>Additive explanations\<close>

text \<open>
  Claim C1, as amended. Let the explainer answer with one contribution per feature, as a
  row of 24 finite numbers, and a single finite base value (its answer for a model with
  one output, such as the RUL regressor or a classifier fitted on two classes), and let
  these reconstruct the model's output \<open>y\<close> within a tolerance:
  \<open>\<bar>sum cs + b - y\<bar> \<le> tol\<close>. If the display count is at least 24, the call succeeds, reports
  that base value and returns all 24 contributions, reordered only, so the returned
  contributions summed and added to the reported base value reconstruct \<open>y\<close> within the same
  tolerance.
\<close>

theorem shap_full_display_reconstructs:
  assumes ex: "shap_explainers ex mtype = Some explainer"
    and sc: "(case scalers (manager ex) (mtype @ ''_scaler'') of
                Some sc \<Rightarrow> sc (reshape_row v)
              | None \<Rightarrow> Inr (reshape_row v)) = Inr s"
    and out: "explainer s =
        Inr (Explanation \<lparr>shape = [1, 24], data = map Fin cs\<rparr>
               (Some \<lparr>shape = [1], data = [Fin b]\<rparr>))"
    and len: "length cs = 24"
    and disp: "24 \<le> max_display"
    and add: "\<bar>sum_list cs + b - y\<bar> \<le> tol"
  shows "\<exists>r. get_shap_explanation ex mtype v max_display = Explained r \<and>
           base_value r = Fin b \<and>
           mset (map shap_value (feature_importance r)) = mset (map Fin cs) \<and>
           reconstructs_output r (Fin y) tol"
proof -
  have p: "process_shap_values (Explanation \<lparr>shape = [1, 24], data = map Fin cs\<rparr>
               (Some \<lparr>shape = [1], data = [Fin b]\<rparr>)) =
      Inr (\<lparr>shape = [length (map Fin cs)], data = map Fin cs\<rparr>, \<lparr>shape = [], data = [Fin b]\<rparr>)"
    using len by (simp add: process_shap_values_def nd_first_def)
  from shap_records_vector [of "map Fin cs"] len obtain recs where
    recs: "map_err shap_record
        (zip get_feature_names (map (\<lambda>x. \<lparr>shape = [], data = [x]\<rparr>) (map Fin cs))) = Inr recs"
    and vals: "map shap_value recs = map Fin cs"
    by auto
  let ?sorted = "sort_desc abs_importance recs"
  have lr: "length recs = 24"
    using vals len by (metis length_map)
  have ls: "length ?sorted = 24"
    using lr by (metis mset_sort_desc size_mset)
  have tk: "py_take max_display ?sorted = ?sorted"
    using ls disp by (intro py_take_all) simp
  let ?r = "\<lparr>model_type = mtype, base_value = Fin b, feature_importance = ?sorted,
             total_features = length get_feature_names, explanation_type = ''SHAP'',
             summary = generate_shap_summary (py_take 5 ?sorted)\<rparr>"
  have res: "shap_explanation_try ex mtype v max_display = Inr ?r"
    unfolding shap_explanation_try_def
    using ex sc out p recs tk nd_rows_vector [of "map Fin cs"]
    by (simp add: py_float_def)
  have ms: "mset (map shap_value ?sorted) = mset (map Fin cs)"
    by (metis mset_map mset_sort_desc vals)
  from fin_list [OF ms] obtain rs where
    rs: "map shap_value ?sorted = map Fin rs" and sm: "sum_list rs = sum_list cs"
    by blast
  have rec: "reconstructs_output ?r (Fin y) tol"
    using add by (simp add: reconstructs_output_def rs fl_sum_Fin sm)
  show ?thesis
    using res ms rec by (simp add: get_shap_explanation_def)
qed

theorem shap_full_display_reconstructs_witness:
  "get_shap_explanation fixture_explainer ''rul'' zero_vector 24 =
     Explained (fixture_rul_explanation\<lparr>feature_importance := map unit_record get_feature_names\<rparr>) \<and>
   reconstructs_output
     (fixture_rul_explanation\<lparr>feature_importance := map unit_record get_feature_names\<rparr>)
     (Fin 25) 0"
proof -
  have e: "get_shap_explanation fixture_explainer ''rul'' zero_vector 24 =
     Explained (fixture_rul_explanation\<lparr>feature_importance := map unit_record get_feature_names\<rparr>)"
    by code_simp
  have a: "shap_explainers fixture_explainer ''rul'' = Some fixture_single_output_explainer"
    by (simp add: fixture_explainer_def)
  have b: "(case scalers (manager fixture_explainer) (''rul'' @ ''_scaler'') of
                Some sc \<Rightarrow> sc (reshape_row zero_vector)
              | None \<Rightarrow> Inr (reshape_row zero_vector)) = Inr (replicate 24 (Fin 0))"
    by (simp add: fixture_explainer_def scalers_def fixture_manager_def zero_vector_row
        fixture_scaler_zero)
  have c: "fixture_single_output_explainer (replicate 24 (Fin 0)) =
        Inr (Explanation \<lparr>shape = [1, 24], data = map Fin (replicate 24 1)\<rparr>
               (Some \<lparr>shape = [1], data = [Fin 1]\<rparr>))"
    by (simp add: fixture_single_output_explainer_def)
  have d: "\<bar>sum_list (replicate 24 (1::real)) + 1 - 25\<bar> \<le> 0"
    by (simp add: sum_list_replicate)
  from shap_full_display_reconstructs [OF a b c _ _ d, of 24]
  obtain r where "get_shap_explanation fixture_explainer ''rul'' zero_vector 24 = Explained r"
    and "reconstructs_output r (Fin 25) 0"
    by auto
  with e show ?thesis
    by simp
qed

text \<open>
  Claim C1 as stated fails at the default display count 10: only the ten contributions of
  largest magnitude are returned. Here the regressor predicts 25 and the explainer's 24
  contributions of 1 with base value 1 add up to exactly 25; the ten returned contributions
  and the reported base value add up to 11.
\<close>

theorem shap_default_display_counterexample:
  "map_sum id fst (predict_rul fixture_manager fixture_now zero_vector) = Inr (Fin 25) \<and>
   fl_add (fl_sum (replicate 24 (Fin 1))) (Fin 1) = Fin 25 \<and>
   get_shap_explanation fixture_explainer ''rul'' zero_vector 10 = Explained fixture_rul_explanation \<and>
   fl_add (fl_sum (map shap_value (feature_importance fixture_rul_explanation)))
     (base_value fixture_rul_explanation) = Fin 11 \<and>
   \<not> reconstructs_output fixture_rul_explanation (Fin 25) (1 / 10 ^ 6)"
proof -
  have s: "fl_add (fl_sum (map shap_value (feature_importance fixture_rul_explanation)))
     (base_value fixture_rul_explanation) = Fin 11"
    by (simp add: fixture_rul_explanation_def unit_record_def fl_sum_def)
  have f: "fl_add (fl_sum (replicate 24 (Fin 1))) (Fin 1) = Fin 25"
    using fl_sum_Fin [of "replicate 24 1"] by (simp add: sum_list_replicate)
  show ?thesis
    using s f by (simp add: predict_rul_fixture get_shap_explanation_fixture_rul
        reconstructs_output_def)
qed

text \<open>
  An answer over \<open>c\<close> classes, in general: the column kept is the one of class index 1, and
  with \<open>c\<close> base values the call ends in the error payload.
\<close>

lemma take1_drop: "i < length xs \<Longrightarrow> take (Suc 0) (drop i xs) = [xs ! i]"
  by (simp add: take_Suc_conv_app_nth hd_drop_conv_nth take_Suc)

lemma nd_column1_entries:
  assumes "2 \<le> c" and "length xs = n * c"
  shows "nd_column1 \<lparr>shape = [n, c], data = xs\<rparr> =
           Inr \<lparr>shape = [n], data = map (\<lambda>i. xs ! (i * c + 1)) [0..<n]\<rparr>"
proof -
  have "\<And>i. i < n \<Longrightarrow> i * c + 1 < length xs"
  proof -
    fix i assume "i < n"
    then have "Suc i \<le> n" by simp
    then have "Suc i * c \<le> n * c" by (rule mult_le_mono1)
    with assms show "i * c + 1 < length xs" by simp
  qed
  then have "concat (map (\<lambda>i. take (Suc 0) (drop (i * c + 1) xs)) [0..<n]) =
      concat (map (\<lambda>i. [xs ! (i * c + 1)]) [0..<n])"
    by (intro arg_cong [where f = concat] map_cong) (auto simp: take1_drop)
  also have "\<dots> = map (\<lambda>i. xs ! (i * c + 1)) [0..<n]"
    by (induction n) auto
  finally show ?thesis
    using assms by (simp add: nd_column1_def)
qed

lemma shap_multiclass_fails:
  assumes ex: "shap_explainers ex mtype = Some explainer"
    and sc: "(case scalers (manager ex) (mtype @ ''_scaler'') of
                Some sc \<Rightarrow> sc (reshape_row v)
              | None \<Rightarrow> Inr (reshape_row v)) = Inr s"
    and out: "explainer s =
        Inr (Explanation \<lparr>shape = [1, 24, c], data = xs\<rparr> (Some \<lparr>shape = [1, c], data = bs\<rparr>))"
    and c: "2 \<le> c" and lx: "length xs = 24 * c" and lb: "length bs = c"
  shows "get_shap_explanation ex mtype v k =
           Failed \<lparr>error = ''only length-1 arrays can be converted to Python scalars'',
                   err_model_type = mtype, err_explanation_type = ''SHAP''\<rparr>"
proof -
  let ?col = "map (\<lambda>i. xs ! (i * c + 1)) [0..<24]"
  have p: "process_shap_values (Explanation \<lparr>shape = [1, 24, c], data = xs\<rparr>
               (Some \<lparr>shape = [1, c], data = bs\<rparr>)) =
      Inr (\<lparr>shape = [24, c], data = xs\<rparr>, \<lparr>shape = [c], data = bs\<rparr>)"
    using lx lb by (simp add: process_shap_values_def nd_first_def)
  have col: "nd_column1 \<lparr>shape = [24, c], data = xs\<rparr> = Inr \<lparr>shape = [length ?col], data = ?col\<rparr>"
    using nd_column1_entries [OF c, of xs 24] lx by simp
  from shap_records_vector [of ?col] obtain recs where
    recs: "map_err shap_record
        (zip get_feature_names (map (\<lambda>x. \<lparr>shape = [], data = [x]\<rparr>) ?col)) = Inr recs"
    by auto
  have b: "py_float \<lparr>shape = [c], data = bs\<rparr> =
      Inl (TypeError ''only length-1 arrays can be converted to Python scalars'')"
  proof -
    from c lb obtain x y zs where "bs = x # y # zs"
      by (cases bs; cases "tl bs") auto
    then show ?thesis by (simp add: py_float_def)
  qed
  have "shap_explanation_try ex mtype v k =
      Inl (TypeError ''only length-1 arrays can be converted to Python scalars'')"
    unfolding shap_explanation_try_def
    using ex sc out p col recs b nd_rows_vector [of ?col]
    by simp
  then show ?thesis
    by (simp add: get_shap_explanation_def)
qed







subsection \<open>Consensus\<close>

text \<open>
  What does hold of the code's consensus: it lies within both additive top-5 sets and within
  the set of first pieces of the surrogate's top-5 descriptions.
\<close>

lemma hd_py_split_space: "hd (split_from cur s) = cur @ takeWhile (\<lambda>c. c \<noteq> CHR '' '') s"
  by (induction s arbitrary: cur) auto

lemma first_piece: "hd (py_split_space s) = takeWhile (\<lambda>c. c \<noteq> CHR '' '') s"
  by (simp add: py_split_space_def hd_py_split_space)

lemma consensus_subsets:
  "find_consensus_features a b c \<subseteq>
     set (map feature (py_take 5 (shap_get_feature_importance a)))"
  "find_consensus_features a b c \<subseteq>
     set (map feature (py_take 5 (shap_get_feature_importance b)))"
  "find_consensus_features a b c \<subseteq>
     set (map (\<lambda>f. takeWhile (\<lambda>c. c \<noteq> CHR '' '') (lime_feature_text f))
            (py_take 5 (lime_get_feature_importance c)))"
  by (auto simp: find_consensus_features_def first_piece)

text \<open>
  Claim C2. The two additive sets are sets of feature names. For the surrogate, the code
  takes the first space-separated piece of each description, which is the feature name for
  the one-sided bins (\<open>sensor_1 <= 0.50\<close>, \<open>setting_1 > 1.20\<close>) but the lower bound for a
  two-sided bin (\<open>0.10 < sensor_2 <= 0.70\<close> gives \<open>0.10\<close>). With all three runs ranking
  \<open>sensor_2\<close> in their top five, the code's consensus leaves it out.
\<close>

theorem consensus_drops_two_sided_range:
  "find_consensus_features (Explained fixture_rul_explanation)
     (Explained (fixture_rul_explanation\<lparr>model_type := ''failure''\<rparr>))
     (Explained (fixture_lime_explanation 0)) = {''setting_1'', ''sensor_1''} \<and>
   consensus_by_feature_name (Explained fixture_rul_explanation)
     (Explained (fixture_rul_explanation\<lparr>model_type := ''failure''\<rparr>))
     (Explained (fixture_lime_explanation 0)) = {''setting_1'', ''sensor_1'', ''sensor_2''}"
proof -
  have d: "described_feature ''sensor_1 <= 0.50'' = Some ''sensor_1''"
    "described_feature ''0.10 < sensor_2 <= 0.70'' = Some ''sensor_2''"
    "described_feature ''setting_1 > 1.20'' = Some ''setting_1''"
    by code_simp+
  have a: "find_consensus_features (Explained fixture_rul_explanation)
     (Explained (fixture_rul_explanation\<lparr>model_type := ''failure''\<rparr>))
     (Explained (fixture_lime_explanation 0)) = {''setting_1'', ''sensor_1''}"
    by (auto simp add: find_consensus_features_def shap_get_feature_importance_def
        lime_get_feature_importance_def fixture_rul_explanation_def fixture_lime_explanation_def
        py_take_def py_split_space_def unit_record_def)
  have b: "consensus_by_feature_name (Explained fixture_rul_explanation)
     (Explained (fixture_rul_explanation\<lparr>model_type := ''failure''\<rparr>))
     (Explained (fixture_lime_explanation 0)) = {''setting_1'', ''sensor_1'', ''sensor_2''}"
    by (auto simp add: consensus_by_feature_name_def shap_get_feature_importance_def
        lime_get_feature_importance_def fixture_rul_explanation_def fixture_lime_explanation_def
        py_take_def d unit_record_def List.map_filter_simps)
  show ?thesis using a b by simp
qed

subsection \<open>The combined analysis\<close>

lemma py_take_Nil: "py_take k [] = []"
  by (simp add: py_take_def)

lemma consensus_empty_if_failed:
  "find_consensus_features (Failed e) b c = {}"
  "find_consensus_features a (Failed e) c = {}"
  "find_consensus_features a b (Failed e) = {}"
  by (simp_all add: find_consensus_features_def shap_get_feature_importance_def
      lime_get_feature_importance_def py_take_Nil)

lemma get_shap_explanation_failed_names:
  "get_shap_explanation ex mtype v k = Failed e \<Longrightarrow>
     err_explanation_type e = ''SHAP'' \<and> err_model_type e = mtype"
  by (auto simp: get_shap_explanation_def split: sum.splits)

lemma get_lime_explanation_failed_names:
  "fst (get_lime_explanation ex g now v mtype k) = Failed e \<Longrightarrow>
     err_explanation_type e = ''LIME'' \<and> err_model_type e = mtype"
  by (auto simp: get_lime_explanation_def split: sum.splits prod.splits)

lemma get_shap_explanation_unavailable:
  "shap_explainers ex mtype = None \<Longrightarrow>
     get_shap_explanation ex mtype v k =
       Failed \<lparr>error = ''SHAP explainer not available for '' @ mtype,
               err_model_type = mtype, err_explanation_type = ''SHAP''\<rparr>"
  by (simp add: get_shap_explanation_def shap_explanation_try_def)

lemma get_lime_explanation_unavailable:
  "lime_explainers ex ''tabular'' = None \<Longrightarrow>
     get_lime_explanation ex g now v mtype k =
       (Failed \<lparr>error = ''LIME explainer not available'',
               err_model_type = mtype, err_explanation_type = ''LIME''\<rparr>, g)"
  by (simp add: get_lime_explanation_def lime_explanation_try_def)

lemma analysis_fixture:
  "get_feature_impact_analysis fixture_explainer 0 fixture_now fixture_now zero_vector =
     (\<lparr>shap_rul = Explained fixture_rul_explanation,
       shap_failure = Failed \<lparr>error = ''only length-1 arrays can be converted to Python scalars'',
             err_model_type = ''failure'', err_explanation_type = ''SHAP''\<rparr>,
       lime_local = Explained (fixture_lime_explanation 0),
       consensus_features = {},
       analysis_timestamp = fixture_now\<rparr>, Suc 0)"
  by (simp add: get_feature_impact_analysis_def get_shap_explanation_fixture_rul
      get_shap_explanation_fixture_failure get_lime_explanation_fixture
      consensus_empty_if_failed)

text \<open>
  Claim C8, as amended. In the combined analysis each of the three explanations is exactly
  what its own call returns, whatever happens to the other two. A call that fails returns
  an error payload that names its explanation type and model type; in particular a missing
  explainer gives the "not available" payload. The consensus is always computed over all
  three results, a failed one counting as an empty top-5 set: as soon as one method has
  failed the consensus is empty. (The result has no field that records which methods took
  part.)
\<close>

theorem feature_impact_analysis_isolates_failures:
  assumes "get_feature_impact_analysis ex g now stamp v = (r, g')"
  shows "shap_rul r = get_shap_explanation ex ''rul'' v 10 \<and>
         shap_failure r = get_shap_explanation ex ''failure'' v 10 \<and>
         (lime_local r, g') = get_lime_explanation ex g now v ''failure'' 10 \<and>
         (\<forall>e. shap_rul r = Failed e \<longrightarrow>
            err_explanation_type e = ''SHAP'' \<and> err_model_type e = ''rul'') \<and>
         (\<forall>e. shap_failure r = Failed e \<longrightarrow>
            err_explanation_type e = ''SHAP'' \<and> err_model_type e = ''failure'') \<and>
         (\<forall>e. lime_local r = Failed e \<longrightarrow>
            err_explanation_type e = ''LIME'' \<and> err_model_type e = ''failure'') \<and>
         (shap_explainers ex ''rul'' = None \<longrightarrow>
            shap_rul r = Failed \<lparr>error = ''SHAP explainer not available for rul'',
               err_model_type = ''rul'', err_explanation_type = ''SHAP''\<rparr>) \<and>
         (shap_explainers ex ''failure'' = None \<longrightarrow>
            shap_failure r = Failed \<lparr>error = ''SHAP explainer not available for failure'',
               err_model_type = ''failure'', err_explanation_type = ''SHAP''\<rparr>) \<and>
         (lime_explainers ex ''tabular'' = None \<longrightarrow>
            lime_local r = Failed \<lparr>error = ''LIME explainer not available'',
               err_model_type = ''failure'', err_explanation_type = ''LIME''\<rparr>) \<and>
         consensus_features r =
           find_consensus_features (shap_rul r) (shap_failure r) (lime_local r) \<and>
         ((\<exists>e. shap_rul r = Failed e) \<or> (\<exists>e. shap_failure r = Failed e) \<or>
          (\<exists>e. lime_local r = Failed e) \<longrightarrow> consensus_features r = {})"
proof -
  from assms have
    a: "shap_rul r = get_shap_explanation ex ''rul'' v 10" and
    b: "shap_failure r = get_shap_explanation ex ''failure'' v 10" and
    c: "lime_local r = fst (get_lime_explanation ex g now v ''failure'' 10)" and
    d: "g' = snd (get_lime_explanation ex g now v ''failure'' 10)" and
    e: "consensus_features r =
           find_consensus_features (shap_rul r) (shap_failure r) (lime_local r)"
    by (auto simp: get_feature_impact_analysis_def Let_def)
  have f: "(\<exists>e. shap_rul r = Failed e) \<or> (\<exists>e. shap_failure r = Failed e) \<or>
          (\<exists>e. lime_local r = Failed e) \<longrightarrow> consensus_features r = {}"
    unfolding e using consensus_empty_if_failed by auto
  have n1: "\<forall>e. shap_rul r = Failed e \<longrightarrow>
            err_explanation_type e = ''SHAP'' \<and> err_model_type e = ''rul''"
    unfolding a using get_shap_explanation_failed_names by blast
  have n2: "\<forall>e. shap_failure r = Failed e \<longrightarrow>
            err_explanation_type e = ''SHAP'' \<and> err_model_type e = ''failure''"
    unfolding b using get_shap_explanation_failed_names by blast
  have n3: "\<forall>e. lime_local r = Failed e \<longrightarrow>
            err_explanation_type e = ''LIME'' \<and> err_model_type e = ''failure''"
    unfolding c using get_lime_explanation_failed_names by blast
  have u1: "shap_explainers ex ''rul'' = None \<longrightarrow>
            shap_rul r = Failed \<lparr>error = ''SHAP explainer not available for rul'',
               err_model_type = ''rul'', err_explanation_type = ''SHAP''\<rparr>"
    unfolding a using get_shap_explanation_unavailable [of ex "''rul''"] by simp
  have u2: "shap_explainers ex ''failure'' = None \<longrightarrow>
            shap_failure r = Failed \<lparr>error = ''SHAP explainer not available for failure'',
               err_model_type = ''failure'', err_explanation_type = ''SHAP''\<rparr>"
    unfolding b using get_shap_explanation_unavailable [of ex "''failure''"] by simp
  have u3: "lime_explainers ex ''tabular'' = None \<longrightarrow>
            lime_local r = Failed \<lparr>error = ''LIME explainer not available'',
               err_model_type = ''failure'', err_explanation_type = ''LIME''\<rparr>"
    unfolding c using get_lime_explanation_unavailable [of ex g now v "''failure''"] by simp
  have l: "(lime_local r, g') = get_lime_explanation ex g now v ''failure'' 10"
    using c d by simp
  show ?thesis
    using a b l n1 n2 n3 u1 u2 u3 e f by blast
qed

theorem feature_impact_analysis_isolates_failures_witness:
  "get_feature_impact_analysis fixture_explainer 0 fixture_now fixture_now zero_vector =
     (\<lparr>shap_rul = Explained fixture_rul_explanation,
       shap_failure = Failed \<lparr>error = ''only length-1 arrays can be converted to Python scalars'',
             err_model_type = ''failure'', err_explanation_type = ''SHAP''\<rparr>,
       lime_local = Explained (fixture_lime_explanation 0),
       consensus_features = {},
       analysis_timestamp = fixture_now\<rparr>, Suc 0) \<and>
   get_shap_explanation fixture_explainer ''rul'' zero_vector 10 = Explained fixture_rul_explanation \<and>
   get_lime_explanation fixture_explainer 0 fixture_now zero_vector ''failure'' 10 =
     (Explained (fixture_lime_explanation 0), Suc 0)"
  using feature_impact_analysis_isolates_failures [OF analysis_fixture] analysis_fixture
  by simp

text \<open>
  Claim C8 as stated fails where it says that the consensus is computed over the methods
  that succeeded. Here the additive explanation of the failure model fails, the other two
  succeed and share \<open>setting_1\<close> and \<open>sensor_1\<close> in their top five; the consensus returned
  is empty.
\<close>

theorem consensus_not_restricted_counterexample:
  "get_feature_impact_analysis fixture_explainer 0 fixture_now fixture_now zero_vector =
     (\<lparr>shap_rul = Explained fixture_rul_explanation,
       shap_failure = Failed \<lparr>error = ''only length-1 arrays can be converted to Python scalars'',
             err_model_type = ''failure'', err_explanation_type = ''SHAP''\<rparr>,
       lime_local = Explained (fixture_lime_explanation 0),
       consensus_features = {},
       analysis_timestamp = fixture_now\<rparr>, Suc 0) \<and>
   consensus_over_succeeded (Explained fixture_rul_explanation)
     (Failed \<lparr>error = ''only length-1 arrays can be converted to Python scalars'',
             err_model_type = ''failure'', err_explanation_type = ''SHAP''\<rparr>)
     (Explained (fixture_lime_explanation 0)) = {''setting_1'', ''sensor_1''}"
proof -
  have "consensus_over_succeeded (Explained fixture_rul_explanation)
     (Failed \<lparr>error = ''only length-1 arrays can be converted to Python scalars'',
             err_model_type = ''failure'', err_explanation_type = ''SHAP''\<rparr>)
     (Explained (fixture_lime_explanation 0)) = {''setting_1'', ''sensor_1''}"
    by (auto simp add: consensus_over_succeeded_def fixture_rul_explanation_def
        fixture_lime_explanation_def py_take_def py_split_space_def unit_record_def)
  with analysis_fixture show ?thesis
    by simp
qed

subsection \<open>Repeated calls\<close>

lemma predict_rul_time:
  "predict_rul mm now2 v =
     map_sum id (\<lambda>(y, m). (y, m\<lparr>rul_timestamp := now2\<rparr>)) (predict_rul mm now1 v)"
  by (simp add: predict_rul_def split: option.splits sum.splits)

lemma predict_failure_risk_time:
  "predict_failure_risk mm now2 v =
     map_sum id (\<lambda>(c, m). (c, m\<lparr>failure_timestamp := now2\<rparr>)) (predict_failure_risk mm now1 v)"
  by (simp add: predict_failure_risk_def split: option.splits sum.splits)

lemma detect_anomaly_time:
  "detect_anomaly mm now2 v =
     map_sum id (\<lambda>(a, m). (a, m\<lparr>anomaly_timestamp := now2\<rparr>)) (detect_anomaly mm now1 v)"
  by (simp add: detect_anomaly_def split: option.splits sum.splits)

lemma predict_fn_time: "predict_fn mm now2 mtype = predict_fn mm now1 mtype"
proof -
  have r: "\<And>x. (case predict_rul mm now2 x of Inl e \<Rightarrow> Inl e
        | Inr (pred, _) \<Rightarrow> Inr [fl_sub (Fin 1) (sigmoid100 pred), sigmoid100 pred]) =
      (case predict_rul mm now1 x of Inl e \<Rightarrow> Inl e
        | Inr (pred, _) \<Rightarrow> Inr [fl_sub (Fin 1) (sigmoid100 pred), sigmoid100 pred])"
    by (subst predict_rul_time [of mm now2 _ now1]) (simp split: sum.splits)
  have f: "\<And>x. (case predict_failure_risk mm now2 x of Inl e \<Rightarrow> Inl e
        | Inr (_, metadata) \<Rightarrow> Inr (map snd (probabilities metadata))) =
      (case predict_failure_risk mm now1 x of Inl e \<Rightarrow> Inl e
        | Inr (_, metadata) \<Rightarrow> Inr (map snd (probabilities metadata)))"
    by (subst predict_failure_risk_time [of mm now2 _ now1]) (simp split: sum.splits)
  show ?thesis
    by (rule ext) (simp add: predict_fn_def r f)
qed

text \<open>
  Claim C9, as amended. With the same registry and vector, a prediction made at another time
  is the same result with only its timestamp replaced; and a surrogate explanation started
  from the same state of the random generator returns the same payload and leaves the
  generator in the same state, whatever the time. (An additive explanation reads neither
  the clock nor the generator: \<open>get_shap_explanation\<close> is a function of the explainer and
  the vector alone.)
\<close>

theorem repeated_calls_agree:
  "predict_rul mm now2 v =
     map_sum id (\<lambda>(y, m). (y, m\<lparr>rul_timestamp := now2\<rparr>)) (predict_rul mm now1 v) \<and>
   predict_failure_risk mm now2 v =
     map_sum id (\<lambda>(c, m). (c, m\<lparr>failure_timestamp := now2\<rparr>)) (predict_failure_risk mm now1 v) \<and>
   detect_anomaly mm now2 v =
     map_sum id (\<lambda>(a, m). (a, m\<lparr>anomaly_timestamp := now2\<rparr>)) (detect_anomaly mm now1 v) \<and>
   get_lime_explanation ex g now2 v mtype k = get_lime_explanation ex g now1 v mtype k"
proof (intro conjI)
  show "get_lime_explanation ex g now2 v mtype k = get_lime_explanation ex g now1 v mtype k"
    unfolding get_lime_explanation_def lime_explanation_try_def
      predict_fn_time [of "manager ex" now2 mtype now1]
    by (rule refl)
qed (rule predict_rul_time predict_failure_risk_time detect_anomaly_time)+

text \<open>
  Claim C9 as stated fails on two counts. The metadata of a prediction carries the time of
  the call, so two calls at different times return different results. And a surrogate
  explanation leaves the random generator in another state, from which the next call, on
  the same vector, can return another explanation.
\<close>

theorem repeated_calls_differ_counterexample:
  "predict_rul fixture_manager ''2024-01-01T00:00:00'' zero_vector \<noteq>
     predict_rul fixture_manager ''2024-01-01T00:00:01'' zero_vector \<and>
   get_lime_explanation fixture_explainer 0 fixture_now zero_vector ''failure'' 10 =
     (Explained (fixture_lime_explanation 0), Suc 0) \<and>
   get_lime_explanation fixture_explainer (Suc 0) fixture_now zero_vector ''failure'' 10 =
     (Explained (fixture_lime_explanation (Suc 0)), Suc (Suc 0)) \<and>
   fixture_lime_explanation 0 \<noteq> fixture_lime_explanation (Suc 0)"
proof -
  have a: "predict_rul fixture_manager ''2024-01-01T00:00:00'' zero_vector \<noteq>
     predict_rul fixture_manager ''2024-01-01T00:00:01'' zero_vector"
    by (simp add: predict_rul_def fixture_manager_def zero_vector_row fixture_scaler_zero)
  have b: "fixture_lime_explanation 0 \<noteq> fixture_lime_explanation (Suc 0)"
    by (simp add: fixture_lime_explanation_def)
  show ?thesis
    using a b by (simp add: get_lime_explanation_fixture)
qed

end
